theory Spec2Isabelle
  imports Main
begin

section \<open>Python values, types and exceptions\<close>

text \<open>
  The worker of \<^verbatim>\<open>lib/orchpy/orchpy/worker.py\<close> is Python 2 code (it uses the
  \<^verbatim>\<open>print\<close> statement). Arguments and results are Python objects; the model keeps a
  closed universe of them, each with its runtime type. An object reference
  (\<^verbatim>\<open>orchpy.lib.ObjRef\<close>) is an opaque token, here a natural number.
\<close>

type_synonym objref = nat

datatype pytype = IntT | BoolT | StrT | ListT | TupleT | NoneT | ObjRefT

datatype val =
    IntV int
  | BoolV bool
  | StrV string
  | ListV "val list"
  | TupleV "val list"
  | NoneV
  | ObjRefV objref

text \<open>
  An entry of \<^verbatim>\<open>arg_types\<close> is a type, or the Python value \<^verbatim>\<open>None\<close>, which a
  trailing position uses as the variadic sentinel.
\<close>

type_synonym descriptor = "pytype option"

text \<open>
  Every \<^verbatim>\<open>raise\<close>, failed \<^verbatim>\<open>assert\<close> and failing builtin of the source is a value.
  The constructors carry what the source formats into the message.
\<close>

datatype error =
    ExpectsExactly string nat nat
    \<comment> \<open>line 101: function, \<^verbatim>\<open>len(function.arg_types)\<close>, \<^verbatim>\<open>len(args)\<close>\<close>
  | ExpectsAtLeast string int nat
    \<comment> \<open>line 103: function, \<^verbatim>\<open>len(function.arg_types) - 1\<close>, \<^verbatim>\<open>len(args)\<close>\<close>
  | ArgumentType nat string pytype descriptor
    \<comment> \<open>lines 120 and 153: position, function, actual type, expected type\<close>
  | ReturnCount string nat "pytype list" nat
    \<comment> \<open>line 82: function, \<^verbatim>\<open>len(return_types)\<close>, \<^verbatim>\<open>return_types\<close>, \<^verbatim>\<open>len(result)\<close>\<close>
  | NotConnected
    \<comment> \<open>line 65\<close>
  | AssertionError
    \<comment> \<open>lines 113 and 142: \<^verbatim>\<open>assert False, "This code should be unreachable."\<close>\<close>
  | TypeError
    \<comment> \<open>builtin: \<^verbatim>\<open>len\<close> of an object without length, \<^verbatim>\<open>isinstance\<close> against \<^verbatim>\<open>None\<close>,
        subscript of an object that has none\<close>
  | IndexError
    \<comment> \<open>builtin: sequence index out of range\<close>
  | KeyError string
    \<comment> \<open>builtin: missing dictionary key\<close>
  | ConnectionError
    \<comment> \<open>the library is used without a connection handle\<close>
  | UnknownFunction string
    \<comment> \<open>the scheduler is asked for a function nobody registered\<close>
  | UserException string
    \<comment> \<open>whatever the body of a distributed function raises\<close>

text \<open>
  A call returns a value, raises, or never comes back because it waits for an object or a
  task that does not arrive.
\<close>

datatype 'a result = Returned 'a | Raised error | Blocked

fun bind :: "'a result \<Rightarrow> ('a \<Rightarrow> 'b result) \<Rightarrow> 'b result" where
  "bind (Returned x) k = k x"
| "bind (Raised e) k = Raised e"
| "bind Blocked k = Blocked"

fun py_type :: "val \<Rightarrow> pytype" where
  "py_type (IntV _) = IntT"
| "py_type (BoolV _) = BoolT"
| "py_type (StrV _) = StrT"
| "py_type (ListV _) = ListT"
| "py_type (TupleV _) = TupleT"
| "py_type NoneV = NoneT"
| "py_type (ObjRefV _) = ObjRefT"

text \<open>\<^verbatim>\<open>bool\<close> is a subclass of \<^verbatim>\<open>int\<close>; the other types of the universe are unrelated.\<close>

definition issubclass :: "pytype \<Rightarrow> pytype \<Rightarrow> bool" where
  "issubclass s t = (s = t \<or> (s = BoolT \<and> t = IntT))"

text \<open>\<^verbatim>\<open>isinstance(v, d)\<close>; with \<^verbatim>\<open>None\<close> as second argument Python raises TypeError.\<close>

definition isinstance :: "val \<Rightarrow> descriptor \<Rightarrow> bool result" where
  "isinstance v d =
     (case d of None \<Rightarrow> Raised TypeError
      | Some t \<Rightarrow> Returned (issubclass (py_type v) t))"

text \<open>\<^verbatim>\<open>len(v)\<close>: defined on strings, lists and tuples.\<close>

fun py_len :: "val \<Rightarrow> nat result" where
  "py_len (StrV s) = Returned (length s)"
| "py_len (ListV vs) = Returned (length vs)"
| "py_len (TupleV vs) = Returned (length vs)"
| "py_len _ = Raised TypeError"

text \<open>\<^verbatim>\<open>xs[i]\<close> on a Python list: a negative index counts from the end.\<close>

definition py_index :: "'a list \<Rightarrow> int \<Rightarrow> 'a result" where
  "py_index xs i =
     (if 0 \<le> i \<and> i < int (length xs) then Returned (xs ! nat i)
      else if i < 0 \<and> 0 \<le> int (length xs) + i then Returned (xs ! nat (int (length xs) + i))
      else Raised IndexError)"

text \<open>\<^verbatim>\<open>v[i]\<close> for a non-negative \<^verbatim>\<open>i\<close> on an object: strings, lists and tuples are subscriptable.\<close>

fun py_getitem :: "val \<Rightarrow> nat \<Rightarrow> val result" where
  "py_getitem (StrV s) i = (if i < length s then Returned (StrV [s ! i]) else Raised IndexError)"
| "py_getitem (ListV vs) i = py_index vs (int i)"
| "py_getitem (TupleV vs) i = py_index vs (int i)"
| "py_getitem _ i = Raised TypeError"

text \<open>
  \<^verbatim>\<open>xs > n\<close> for a list \<^verbatim>\<open>xs\<close> and an integer \<^verbatim>\<open>n\<close>: Python 2 orders objects of
  different types with numbers below everything else, so the comparison is \<^verbatim>\<open>True\<close>
  whatever the list holds.
\<close>

definition list_gt_int :: "'a list \<Rightarrow> int \<Rightarrow> val" where
  "list_gt_int xs n = BoolV True"

section \<open>Distributed functions\<close>

text \<open>
  The state behind \<^verbatim>\<open>worker.handle\<close>, on the other side of \<^verbatim>\<open>orchpy.lib\<close>.

  Modelled from the spec: \<^verbatim>\<open>orchpy.lib\<close> (scheduler, object store and worker service)
  is not part of the source file. The scheduler knows the return arity announced by
  \<^verbatim>\<open>register_function(name, return_arity)\<close> and hands out fresh object references; the
  object store maps a reference to the value put there; \<open>trace\<close> lists the calls made
  into the library that change it, oldest first.
\<close>

datatype event =
    RegisterFunction string nat
  | RemoteCall string "val list" "objref list"
  | StartWorkerService
  | WaitForNextTask
  | PutObject objref val
  | NotifyTaskCompleted

record lib_state =
  arities :: "string \<rightharpoonup> nat"
  next_objref :: objref
  objstore :: "objref \<rightharpoonup> val"
  trace :: "event list"

text \<open>
  The function a decorator wraps: \<^verbatim>\<open>func.__name__\<close>, \<^verbatim>\<open>func.__module__\<close> and what a
  call \<^verbatim>\<open>func(*arguments)\<close> does. A body may call into the library (for instance other
  distributed functions), so it takes the library state and returns it.
\<close>

record pyfunc =
  name :: string
  module :: string
  body :: "val list \<Rightarrow> lib_state \<Rightarrow> val result \<times> lib_state"

text \<open>
  The attributes that lines 89 to 93 set on \<^verbatim>\<open>func_call\<close>. In Python 2
  \<^verbatim>\<open>func_name\<close> is the same attribute as \<^verbatim>\<open>__name__\<close>, so \<^verbatim>\<open>function.__name__\<close> in the
  messages of \<^verbatim>\<open>check_arguments\<close> and \<^verbatim>\<open>get_arguments_for_execution\<close> is \<open>func_name\<close>.
  The executor is \<open>func_executor\<close> below applied to the record.
\<close>

record distributed_function =
  func_name :: string
  arg_types :: "descriptor list"
  return_types :: "pytype list"
  func :: pyfunc

definition distributed :: "descriptor list \<Rightarrow> pytype list \<Rightarrow> pyfunc \<Rightarrow> distributed_function" where
  "distributed ats rts f =
     \<lparr>func_name = module f @ ''.'' @ name f, arg_types = ats, return_types = rts, func = f\<rparr>"

subsection \<open>The expected type of a position (lines 106 to 113 and 135 to 142)\<close>

text \<open>
  Line 110 reads \<^verbatim>\<open>function.arg_types[-1] is None and len(function.arg_types > 1)\<close>:
  the comparison is inside the call of \<^verbatim>\<open>len\<close>. \<open>variadic_branch\<close> is that
  \<^verbatim>\<open>elif\<close> with the \<^verbatim>\<open>else\<close> after it.
\<close>

definition variadic_branch :: "descriptor list \<Rightarrow> descriptor result" where
  "variadic_branch ats =
     bind (py_index ats (- 1)) (\<lambda>l.
       if l = None then
         bind (py_len (list_gt_int ats 1)) (\<lambda>n.
           if n \<noteq> 0 then py_index ats (- 2) else Raised AssertionError)
       else Raised AssertionError)"

definition expected_type :: "descriptor list \<Rightarrow> nat \<Rightarrow> descriptor result" where
  "expected_type ats i =
     (if int i < int (length ats) - 1 then py_index ats (int i)
      else if int i = int (length ats) - 1 then
        bind (py_index ats (- 1)) (\<lambda>l.
          if l \<noteq> None then py_index ats (- 1) else variadic_branch ats)
      else variadic_branch ats)"

subsection \<open>\<^verbatim>\<open>check_arguments\<close> (lines 98 to 120)\<close>

definition check_count :: "distributed_function \<Rightarrow> val list \<Rightarrow> unit result" where
  "check_count f args =
     (let at_least =
        (if int (length args) < int (length (arg_types f)) - 1 then
           bind (py_index (arg_types f) (- 1)) (\<lambda>l.
             if l = None then
               Raised (ExpectsAtLeast (func_name f) (int (length (arg_types f)) - 1) (length args))
             else Returned ())
         else Returned ())
      in if length args \<noteq> length (arg_types f) then
           bind (py_index (arg_types f) (- 1)) (\<lambda>l.
             if l \<noteq> None then
               Raised (ExpectsExactly (func_name f) (length (arg_types f)) (length args))
             else at_least)
         else at_least)"

text \<open>One round of the loop of lines 105 to 120, for the argument at position \<open>i\<close>.\<close>

definition check_argument :: "distributed_function \<Rightarrow> nat \<Rightarrow> val \<Rightarrow> unit result" where
  "check_argument f i arg =
     bind (expected_type (arg_types f) i) (\<lambda>expected.
       if py_type arg = ObjRefT then Returned ()
       else bind (isinstance arg expected) (\<lambda>ok.
         if \<not> ok then Raised (ArgumentType i (func_name f) (py_type arg) expected)
         else Returned ()))"

fun check_each :: "distributed_function \<Rightarrow> nat \<Rightarrow> val list \<Rightarrow> unit result" where
  "check_each f i [] = Returned ()"
| "check_each f i (arg # args) =
     bind (check_argument f i arg) (\<lambda>_. check_each f (Suc i) args)"

definition check_arguments :: "distributed_function \<Rightarrow> val list \<Rightarrow> unit result" where
  "check_arguments f args = bind (check_count f args) (\<lambda>_. check_each f 0 args)"

subsection \<open>The worker and the library behind its handle\<close>

type_synonym handle = "string \<times> string \<times> string"

record worker =
  "functions" :: "string \<rightharpoonup> distributed_function"
  connected :: bool
  handle :: "handle option"

text \<open>\<^verbatim>\<open>Worker.__init__\<close> (lines 10 to 13).\<close>

definition Worker :: worker where
  "Worker = \<lparr>functions = Map.empty, connected = False, handle = None\<rparr>"

text \<open>
  \<^verbatim>\<open>connect\<close> (lines 49 to 53). Modelled from the spec: \<^verbatim>\<open>orchpy.lib.create_worker\<close>
  is not in the source file; the handle it returns stands for the three addresses.
\<close>

definition connect :: "string \<Rightarrow> string \<Rightarrow> string \<Rightarrow> worker \<Rightarrow> worker" where
  "connect scheduler_addr objstore_addr worker_addr w =
     w\<lparr>handle := Some (scheduler_addr, objstore_addr, worker_addr), connected := True\<rparr>"

definition log_event :: "event \<Rightarrow> lib_state \<Rightarrow> lib_state" where
  "log_event ev s = s\<lparr>trace := trace s @ [ev]\<rparr>"

text \<open>Sequencing of calls that thread the library state; an exception or a block ends it.\<close>

definition sbind ::
  "(lib_state \<Rightarrow> 'a result \<times> lib_state) \<Rightarrow> ('a \<Rightarrow> lib_state \<Rightarrow> 'b result \<times> lib_state) \<Rightarrow>
   lib_state \<Rightarrow> 'b result \<times> lib_state" where
  "sbind m k s =
     (case m s of
        (Returned x, s') \<Rightarrow> k x s'
      | (Raised e, s') \<Rightarrow> (Raised e, s')
      | (Blocked, s') \<Rightarrow> (Blocked, s'))"

text \<open>
  \<^verbatim>\<open>Worker.put_object\<close> (lines 15 to 18).
  Modelled from the spec: \<^verbatim>\<open>orchpy.lib.put_object\<close> and \<^verbatim>\<open>serialization\<close> are not in the
  source file. The codec is a lossless round trip, so the store keeps the value itself;
  the spec leaves a second put to the same reference undefined, here it replaces the value.
\<close>

definition put_object :: "worker \<Rightarrow> objref \<Rightarrow> val \<Rightarrow> lib_state \<Rightarrow> lib_state" where
  "put_object w objref v s =
     log_event (PutObject objref v) (s\<lparr>objstore := (objstore s)(objref \<mapsto> v)\<rparr>)"

text \<open>
  \<^verbatim>\<open>Worker.get_object\<close> (lines 20 to 23).
  Modelled from the spec: \<^verbatim>\<open>orchpy.lib.get_object\<close> is not in the source file; it blocks
  until the value has been written, so on a store without the reference it does not return.
\<close>

definition get_object :: "worker \<Rightarrow> objref \<Rightarrow> lib_state \<Rightarrow> val result" where
  "get_object w objref s =
     (case objstore s objref of None \<Rightarrow> Blocked | Some v \<Rightarrow> Returned v)"

text \<open>
  Modelled from the spec: \<^verbatim>\<open>orchpy.lib.register_function\<close> is not in the source file;
  the scheduler records the return arity announced for the name.
\<close>

definition lib_register_function :: "handle option \<Rightarrow> string \<Rightarrow> nat \<Rightarrow> lib_state \<Rightarrow> lib_state" where
  "lib_register_function h fname n s =
     log_event (RegisterFunction fname n) (s\<lparr>arities := (arities s)(fname \<mapsto> n)\<rparr>)"

text \<open>\<^verbatim>\<open>Worker.register_function\<close> (lines 25 to 28).\<close>

definition register_function ::
  "worker \<Rightarrow> distributed_function \<Rightarrow> lib_state \<Rightarrow> worker \<times> lib_state" where
  "register_function w function s =
     (let s' = lib_register_function (handle w) (func_name function)
                 (length (return_types function)) s
      in (w\<lparr>functions := (functions w)(func_name function \<mapsto> function)\<rparr>, s'))"

text \<open>
  Modelled from the spec: \<^verbatim>\<open>orchpy.lib.serialize_call\<close> and \<^verbatim>\<open>orchpy.lib.remote_call\<close>
  are not in the source file. Dispatch without a connection is a ConnectionError;
  otherwise the scheduler allocates one fresh object reference per declared return value
  of the named function and returns them at once. The spec does not say what happens for
  a name that was never registered; here the call raises.
\<close>

definition lib_remote_call ::
  "handle option \<Rightarrow> string \<Rightarrow> val list \<Rightarrow> lib_state \<Rightarrow> objref list result \<times> lib_state" where
  "lib_remote_call h fname args s =
     (case h of
        None \<Rightarrow> (Raised ConnectionError, s)
      | Some _ \<Rightarrow>
          (case arities s fname of
             None \<Rightarrow> (Raised (UnknownFunction fname), s)
           | Some n \<Rightarrow>
               (let objrefs = [next_objref s ..< next_objref s + n]
                in (Returned objrefs,
                    log_event (RemoteCall fname args objrefs)
                      (s\<lparr>next_objref := next_objref s + n\<rparr>)))))"

text \<open>\<^verbatim>\<open>Worker.remote_call\<close> (lines 30 to 34).\<close>

definition remote_call ::
  "worker \<Rightarrow> string \<Rightarrow> val list \<Rightarrow> lib_state \<Rightarrow> objref list result \<times> lib_state" where
  "remote_call w fname args s = lib_remote_call (handle w) fname args s"

subsection \<open>The executor and the call proxy (lines 77 to 88)\<close>

definition func_executor ::
  "distributed_function \<Rightarrow> val list \<Rightarrow> lib_state \<Rightarrow> val result \<times> lib_state" where
  "func_executor f arguments =
     sbind (body (func f) arguments) (\<lambda>result s.
       if length (return_types f) \<noteq> 1 then
         (bind (py_len result) (\<lambda>n.
            if n \<noteq> length (return_types f) then
              Raised (ReturnCount (name (func f)) (length (return_types f)) (return_types f) n)
            else Returned result), s)
       else (Returned result, s))"

definition func_call ::
  "distributed_function \<Rightarrow> worker \<Rightarrow> val list \<Rightarrow> lib_state \<Rightarrow> val result \<times> lib_state" where
  "func_call f w args =
     sbind (\<lambda>s. (check_arguments f args, s)) (\<lambda>_.
       sbind (remote_call w (func_name f) args) (\<lambda>objrefs s.
         (Returned (if length objrefs = 1 then ObjRefV (objrefs ! 0)
                    else ListV (map ObjRefV objrefs)), s)))"

subsection \<open>\<^verbatim>\<open>get_arguments_for_execution\<close> (lines 123 to 155)\<close>

text \<open>
  The count check of lines 127 to 131 is inside a string literal and does not run.
  \<open>get_argument\<close> is one round of the loop of lines 134 to 154.
\<close>

definition get_argument ::
  "distributed_function \<Rightarrow> worker \<Rightarrow> lib_state \<Rightarrow> nat \<Rightarrow> val \<Rightarrow> val result" where
  "get_argument f w s i arg =
     bind (expected_type (arg_types f) i) (\<lambda>expected.
       bind (case arg of ObjRefV r \<Rightarrow> get_object w r s | _ \<Rightarrow> Returned arg) (\<lambda>argument.
         bind (isinstance argument expected) (\<lambda>ok.
           if \<not> ok then Raised (ArgumentType i (func_name f) (py_type argument) expected)
           else Returned argument)))"

fun get_each ::
  "distributed_function \<Rightarrow> worker \<Rightarrow> lib_state \<Rightarrow> nat \<Rightarrow> val list \<Rightarrow> val list \<Rightarrow> val list result" where
  "get_each f w s i [] arguments = Returned arguments"
| "get_each f w s i (arg # args) arguments =
     bind (get_argument f w s i arg) (\<lambda>argument.
       get_each f w s (Suc i) args (arguments @ [argument]))"

definition get_arguments_for_execution ::
  "distributed_function \<Rightarrow> val list \<Rightarrow> worker \<Rightarrow> lib_state \<Rightarrow> val list result" where
  "get_arguments_for_execution f args w s = get_each f w s 0 args []"

subsection \<open>\<^verbatim>\<open>store_outputs_in_objstore\<close> (lines 158 to 163)\<close>

text \<open>
  \<open>store_from objrefs outputs i\<close> is the loop of lines 162 and 163 from index \<open>i\<close> on,
  \<open>objrefs\<close> being the references not yet visited.
\<close>

fun store_from ::
  "objref list \<Rightarrow> val \<Rightarrow> nat \<Rightarrow> worker \<Rightarrow> lib_state \<Rightarrow> unit result \<times> lib_state" where
  "store_from [] outputs i w s = (Returned (), s)"
| "store_from (objref # objrefs) outputs i w s =
     (case py_getitem outputs i of
        Returned v \<Rightarrow> store_from objrefs outputs (Suc i) w (put_object w objref v s)
      | Raised e \<Rightarrow> (Raised e, s)
      | Blocked \<Rightarrow> (Blocked, s))"

definition store_outputs_in_objstore ::
  "objref list \<Rightarrow> val \<Rightarrow> worker \<Rightarrow> lib_state \<Rightarrow> unit result \<times> lib_state" where
  "store_outputs_in_objstore objrefs outputs w s =
     (if length objrefs = 1 then (Returned (), put_object w (objrefs ! 0) outputs s)
      else store_from objrefs outputs 0 w s)"

subsection \<open>\<^verbatim>\<open>main_loop\<close> (lines 63 to 73)\<close>

text \<open>
  Modelled from the spec: \<^verbatim>\<open>start_worker_service\<close>, \<^verbatim>\<open>wait_for_next_task\<close>,
  \<^verbatim>\<open>deserialize_call\<close> and \<^verbatim>\<open>notify_task_completed\<close> of \<^verbatim>\<open>orchpy.lib\<close> are not in the
  source file. The scheduler delivers the calls of a list, in order, each as function
  name, arguments and output references; when the list is used up
  \<^verbatim>\<open>wait_for_next_task\<close> blocks for ever.

  \<open>serve\<close> is the \<^verbatim>\<open>while True\<close> loop of lines 67 to 73.
\<close>

type_synonym task = "string \<times> val list \<times> objref list"

fun serve :: "worker \<Rightarrow> task list \<Rightarrow> lib_state \<Rightarrow> unit result \<times> lib_state" where
  "serve w [] s = (Blocked, log_event WaitForNextTask s)"
| "serve w ((fname, args, return_objrefs) # calls) s =
     sbind (\<lambda>s. (case functions w fname of
                   None \<Rightarrow> Raised (KeyError fname)
                 | Some f \<Rightarrow> bind (get_arguments_for_execution f args w s) (\<lambda>arguments.
                     Returned (f, arguments)), s))
       (\<lambda>(f, arguments).
          sbind (func_executor f arguments) (\<lambda>outputs.
            sbind (store_outputs_in_objstore return_objrefs outputs w) (\<lambda>_ s.
              serve w calls (log_event NotifyTaskCompleted s))))
       (log_event WaitForNextTask s)"

definition main_loop :: "worker \<Rightarrow> task list \<Rightarrow> lib_state \<Rightarrow> unit result \<times> lib_state" where
  "main_loop w calls s =
     (if \<not> connected w then (Raised NotConnected, s)
      else serve w calls (log_event StartWorkerService s))"

section \<open>Observations on a run\<close>

text \<open>
  What the resolver owes for one argument, in the words of the specification: an object
  reference is replaced by the value the object store holds for it, anything else is
  passed through unchanged.
\<close>

fun resolved :: "lib_state \<Rightarrow> val \<Rightarrow> val \<Rightarrow> bool" where
  "resolved s (ObjRefV r) v = (objstore s r = Some v)"
| "resolved s arg v = (v = arg)"

text \<open>The values that the \<^verbatim>\<open>put_object\<close> calls of a trace wrote to one reference, in order.\<close>

fun writes_to :: "objref \<Rightarrow> event list \<Rightarrow> val list" where
  "writes_to r [] = []"
| "writes_to r (PutObject r' v # evs) =
     (if r' = r then v # writes_to r evs else writes_to r evs)"
| "writes_to r (_ # evs) = writes_to r evs"

section \<open>Example functions and states\<close>

definition lib0 :: lib_state where
  "lib0 = \<lparr>arities = Map.empty, next_objref = 0, objstore = Map.empty, trace = []\<rparr>"

definition add_func :: pyfunc where
  "add_func =
     \<lparr>name = ''add'', module = ''demo'',
      body = (\<lambda>arguments s.
        (case arguments of [IntV a, IntV b] \<Rightarrow> Returned (IntV (a + b)) | _ \<Rightarrow> Raised TypeError, s))\<rparr>"

definition split_func :: pyfunc where
  "split_func =
     \<lparr>name = ''split'', module = ''demo'',
      body = (\<lambda>arguments s.
        (case arguments of
           [StrV a] \<Rightarrow> Returned (TupleV [StrV (take 1 a), StrV (drop 1 a)])
         | _ \<Rightarrow> Raised TypeError, s))\<rparr>"

text \<open>
  \<^verbatim>\<open>@distributed([int, int], [int]) def add(a, b)\<close>,
  \<^verbatim>\<open>@distributed([str], [str, str]) def split(a)\<close>,
  a second function named \<^verbatim>\<open>add\<close> in the same module that takes any number of integers,
  and a \<^verbatim>\<open>split\<close> that declares three return values but produces two.
\<close>

definition add :: distributed_function where
  "add = distributed [Some IntT, Some IntT] [IntT] add_func"

definition split :: distributed_function where
  "split = distributed [Some StrT] [StrT, StrT] split_func"

definition add_many :: distributed_function where
  "add_many = distributed [Some IntT, None] [IntT] add_func"

definition split3 :: distributed_function where
  "split3 = distributed [Some StrT] [StrT, StrT, StrT] split_func"

text \<open>
  \<^verbatim>\<open>@distributed([], [int, int]) def five(): return 5\<close>: two return values declared, one
  integer returned.
\<close>

definition five_func :: pyfunc where
  "five_func =
     \<lparr>name = ''five'', module = ''demo'', body = (\<lambda>arguments s. (Returned (IntV 5), s))\<rparr>"

definition five_pair :: distributed_function where
  "five_pair = distributed [] [IntT, IntT] five_func"

text \<open>A connected worker, and the library after \<open>add\<close> and \<open>split\<close> were registered.\<close>

definition worker1 :: worker where
  "worker1 = connect ''scheduler:10001'' ''objstore:20001'' ''worker:30001'' Worker"

definition lib1 :: lib_state where
  "lib1 = snd (register_function worker1 split (snd (register_function worker1 add lib0)))"

text \<open>The same worker with \<open>add\<close> and \<open>split\<close> in its registry.\<close>

definition worker2 :: worker where
  "worker2 = fst (register_function (fst (register_function worker1 add lib0)) split lib0)"

text \<open>Object stores that hold a string, respectively an integer, for reference 7.\<close>

definition lib_str :: lib_state where
  "lib_str = lib0\<lparr>objstore := [7 \<mapsto> StrV ''seven'']\<rparr>"

definition lib_int :: lib_state where
  "lib_int = lib0\<lparr>objstore := [7 \<mapsto> IntV 3]\<rparr>"

section \<open>Indexing and the expected type of a position\<close>

lemma py_index_last: "xs \<noteq> [] \<Longrightarrow> py_index xs (- 1) = Returned (last xs)"
  by (cases xs rule: rev_cases) (auto simp: py_index_def nth_append)

lemma py_index_nil: "py_index [] i = Raised IndexError"
  by (simp add: py_index_def)

lemma py_index_nat: "i < length xs \<Longrightarrow> py_index xs (int i) = Returned (xs ! i)"
  by (simp add: py_index_def)

lemma variadic_branch_sentinel:
  "ats \<noteq> [] \<Longrightarrow> last ats = None \<Longrightarrow> variadic_branch ats = Raised TypeError"
  by (simp add: variadic_branch_def py_index_last list_gt_int_def)

lemma variadic_branch_no_sentinel:
  "ats \<noteq> [] \<Longrightarrow> last ats \<noteq> None \<Longrightarrow> variadic_branch ats = Raised AssertionError"
  by (auto simp: variadic_branch_def py_index_last)

lemma variadic_branch_nil: "variadic_branch [] = Raised IndexError"
  by (simp add: variadic_branch_def py_index_nil)

lemma expected_type_regular:
  "Suc i < length ats \<Longrightarrow> expected_type ats i = Returned (ats ! i)"
  by (simp add: expected_type_def py_index_def)

lemma expected_type_last:
  "ats \<noteq> [] \<Longrightarrow> last ats \<noteq> None \<Longrightarrow> Suc i = length ats \<Longrightarrow>
   expected_type ats i = Returned (last ats)"
  by (auto simp: expected_type_def py_index_last)

lemma expected_type_beyond:
  "ats \<noteq> [] \<Longrightarrow> last ats \<noteq> None \<Longrightarrow> length ats \<le> i \<Longrightarrow>
   expected_type ats i = Raised AssertionError"
  by (auto simp: expected_type_def variadic_branch_no_sentinel)

lemma expected_type_variadic:
  "ats \<noteq> [] \<Longrightarrow> last ats = None \<Longrightarrow> length ats \<le> Suc i \<Longrightarrow>
   expected_type ats i = Raised TypeError"
  by (auto simp: expected_type_def variadic_branch_sentinel py_index_last)

lemma expected_type_nil: "expected_type [] i = Raised IndexError"
  by (simp add: expected_type_def variadic_branch_nil)

section \<open>Argument counts\<close>

lemma check_count_exact:
  "arg_types f \<noteq> [] \<Longrightarrow> last (arg_types f) \<noteq> None \<Longrightarrow>
   length args \<noteq> length (arg_types f) \<Longrightarrow>
   check_count f args =
     Raised (ExpectsExactly (func_name f) (length (arg_types f)) (length args))"
  by (simp add: check_count_def Let_def py_index_last)

lemma check_count_variadic:
  "arg_types f \<noteq> [] \<Longrightarrow> last (arg_types f) = None \<Longrightarrow>
   length (arg_types f) \<le> Suc (length args) \<Longrightarrow> check_count f args = Returned ()"
  by (auto simp add: check_count_def Let_def py_index_last)

text \<open>
  With at least one descriptor and no sentinel, a wrong number of arguments is reported
  with both counts, and nothing is dispatched: the library state is the one before the call.
\<close>

lemma func_call_exact:
  "arg_types f \<noteq> [] \<Longrightarrow> last (arg_types f) \<noteq> None \<Longrightarrow>
   length args \<noteq> length (arg_types f) \<Longrightarrow>
   func_call f w args s =
     (Raised (ExpectsExactly (func_name f) (length (arg_types f)) (length args)), s)"
  by (simp add: func_call_def sbind_def check_arguments_def check_count_exact)

text \<open>
  With a trailing sentinel the count is accepted from \<open>L - 1\<close> arguments on, but as soon as
  there is an argument at position \<open>L - 1\<close> the loop cannot finish: line 110 raises there.
\<close>

lemma check_each_variadic:
  "arg_types f \<noteq> [] \<Longrightarrow> last (arg_types f) = None \<Longrightarrow> i < length (arg_types f) \<Longrightarrow>
   length (arg_types f) \<le> i + length args \<Longrightarrow> check_each f i args \<noteq> Returned ()"
proof (induction args arbitrary: i)
  case Nil
  then show ?case by simp
next
  case (Cons a args)
  show ?case
  proof (cases "Suc i = length (arg_types f)")
    case True
    with Cons.prems show ?thesis
      by (simp add: check_argument_def expected_type_variadic)
  next
    case False
    with Cons.prems have "check_each f (Suc i) args \<noteq> Returned ()"
      by (intro Cons.IH) auto
    then show ?thesis
      by (cases "check_argument f i a") auto
  qed
qed

lemma check_arguments_variadic:
  "arg_types f \<noteq> [] \<Longrightarrow> last (arg_types f) = None \<Longrightarrow>
   length (arg_types f) \<le> length args \<Longrightarrow> check_arguments f args \<noteq> Returned ()"
  using check_each_variadic [of f 0 args]
  by (cases "check_count f args") (auto simp: check_arguments_def)

section \<open>The resolver\<close>

lemma bind_Returned_iff:
  "bind m k = Returned y \<longleftrightarrow> (\<exists>x. m = Returned x \<and> k x = Returned y)"
  by (cases m) auto

lemma get_argument_resolved:
  "get_argument f w s i arg = Returned v \<Longrightarrow> resolved s arg v"
  by (cases arg)
     (auto simp: get_argument_def get_object_def bind_Returned_iff
           split: option.splits if_splits)

lemma get_each_append:
  "get_each f w s i (xs @ ys) acc =
     bind (get_each f w s i xs acc) (\<lambda>acc'. get_each f w s (i + length xs) ys acc')"
proof (induction xs arbitrary: i acc)
  case Nil
  then show ?case by simp
next
  case (Cons x xs)
  show ?case
    by (cases "get_argument f w s i x") (simp_all add: Cons.IH)
qed

text \<open>
  When the loop returns, every round returned, and the list it returns is the accumulator
  followed by the values of the rounds, one per argument.
\<close>

lemma get_each_Returned:
  "get_each f w s i args acc = Returned vs \<Longrightarrow>
   \<exists>vs'. vs = acc @ vs' \<and> length vs' = length args \<and>
         (\<forall>j<length args. get_argument f w s (i + j) (args ! j) = Returned (vs' ! j))"
proof (induction args arbitrary: i acc)
  case Nil
  then show ?case by simp
next
  case (Cons a args)
  from Cons.prems obtain v where
    v: "get_argument f w s i a = Returned v" and
    rest: "get_each f w s (Suc i) args (acc @ [v]) = Returned vs"
    by (auto simp: bind_Returned_iff)
  from Cons.IH [OF rest] obtain vs' where
    vs': "vs = (acc @ [v]) @ vs'" "length vs' = length args"
    "\<forall>j<length args. get_argument f w s (Suc i + j) (args ! j) = Returned (vs' ! j)"
    by blast
  have "\<forall>j<length (a # args).
          get_argument f w s (i + j) ((a # args) ! j) = Returned ((v # vs') ! j)"
  proof (intro allI impI)
    fix j assume "j < length (a # args)"
    then show "get_argument f w s (i + j) ((a # args) ! j) = Returned ((v # vs') ! j)"
      using v vs'(3) by (cases j) auto
  qed
  with vs' show ?case
    by (intro exI [of _ "v # vs'"]) simp
qed

lemma get_argument_beyond:
  "arg_types f \<noteq> [] \<Longrightarrow> last (arg_types f) \<noteq> None \<Longrightarrow> length (arg_types f) \<le> i \<Longrightarrow>
   get_argument f w s i arg = Raised AssertionError"
  by (simp add: get_argument_def expected_type_beyond)

lemma get_argument_variadic:
  "arg_types f \<noteq> [] \<Longrightarrow> last (arg_types f) = None \<Longrightarrow> length (arg_types f) \<le> Suc i \<Longrightarrow>
   get_argument f w s i arg = Raised TypeError"
  by (simp add: get_argument_def expected_type_variadic)

text \<open>The resolver has the defect of line 110 at line 139: no variadic argument gets through.\<close>

lemma get_arguments_variadic:
  assumes "arg_types f \<noteq> []" and "last (arg_types f) = None"
    and "length (arg_types f) \<le> length args"
  shows "get_arguments_for_execution f args w s \<noteq> Returned vs"
proof
  assume "get_arguments_for_execution f args w s = Returned vs"
  then have "get_each f w s 0 args [] = Returned vs"
    by (simp add: get_arguments_for_execution_def)
  from get_each_Returned [OF this] assms
  have "\<exists>v. get_argument f w s (length (arg_types f) - 1) (args ! (length (arg_types f) - 1))
          = Returned v"
    by (cases "arg_types f") auto
  with assms show False
    by (simp add: get_argument_variadic)
qed

lemma get_arguments_mismatch:
  assumes "get_arguments_for_execution f xs w s = Returned vs"
    and "objstore s r = Some v"
    and "expected_type (arg_types f) (length xs) = Returned (Some t)"
    and "\<not> issubclass (py_type v) t"
  shows "get_arguments_for_execution f (xs @ ObjRefV r # ys) w s =
           Raised (ArgumentType (length xs) (func_name f) (py_type v) (Some t))"
  using assms
  by (simp add: get_arguments_for_execution_def get_each_append get_argument_def
      get_object_def isinstance_def)

section \<open>Where a type error can come from\<close>

lemma expected_type_not_ArgumentType: "expected_type ats i \<noteq> Raised (ArgumentType j n a e)"
  by (auto simp: expected_type_def variadic_branch_def py_index_def list_gt_int_def)

lemma check_argument_ArgumentType:
  "check_argument f k arg = Raised (ArgumentType i n a e) \<Longrightarrow> i = k \<and> py_type arg \<noteq> ObjRefT"
  by (cases "expected_type (arg_types f) k")
     (auto simp: check_argument_def isinstance_def expected_type_not_ArgumentType
           split: if_splits option.splits)

lemma check_each_ArgumentType:
  "check_each f k args = Raised (ArgumentType i n a e) \<Longrightarrow>
   k \<le> i \<and> i < k + length args \<and> py_type (args ! (i - k)) \<noteq> ObjRefT"
proof (induction args arbitrary: k)
  case Nil
  then show ?case by simp
next
  case (Cons x xs)
  show ?case
  proof (cases "check_argument f k x")
    case (Returned u)
    with Cons.prems have "check_each f (Suc k) xs = Raised (ArgumentType i n a e)"
      by simp
    from Cons.IH [OF this] have ih: "Suc k \<le> i" "i < Suc k + length xs"
      "py_type (xs ! (i - Suc k)) \<noteq> ObjRefT"
      by auto
    from ih(1) have "(x # xs) ! (i - k) = xs ! (i - Suc k)"
      by (simp add: nth_Cons')
    with ih show ?thesis by simp
  next
    case (Raised err)
    with Cons.prems show ?thesis
      by (auto dest: check_argument_ArgumentType)
  next
    case Blocked
    with Cons.prems show ?thesis by simp
  qed
qed

lemma check_count_not_ArgumentType: "check_count f args \<noteq> Raised (ArgumentType i n a e)"
  by (auto simp: check_count_def Let_def py_index_def)

lemma check_arguments_ArgumentType:
  "check_arguments f args = Raised (ArgumentType i n a e) \<Longrightarrow>
   i < length args \<and> py_type (args ! i) \<noteq> ObjRefT"
  using check_each_ArgumentType [of f 0 args i n a e]
    check_count_not_ArgumentType [of f args i n a e]
  by (cases "check_count f args") (auto simp: check_arguments_def)

section \<open>Dispatch\<close>

lemma register_function_arity:
  "arities (snd (register_function w f s)) (func_name f) = Some (length (return_types f))"
  by (simp add: register_function_def Let_def lib_register_function_def log_event_def)

lemma remote_call_Returned:
  "fst (remote_call w fname args s) = Returned objrefs \<Longrightarrow> arities s fname = Some n \<Longrightarrow>
   objrefs = [next_objref s ..< next_objref s + n]"
  by (auto simp: remote_call_def lib_remote_call_def Let_def split: option.splits)

section \<open>Storing outputs\<close>

lemma store_from_trace:
  "(\<forall>j<length rs. py_getitem outputs (i + j) = Returned (item (i + j))) \<Longrightarrow>
   fst (store_from rs outputs i w s) = Returned () \<and>
   trace (snd (store_from rs outputs i w s)) =
     trace s @ map (\<lambda>j. PutObject (rs ! j) (item (i + j))) [0..<length rs]"
proof (induction rs arbitrary: i s)
  case Nil
  then show ?case by simp
next
  case (Cons r rs)
  from Cons.prems have here: "py_getitem outputs i = Returned (item i)"
    by force
  from Cons.prems
  have "\<forall>j<length rs. py_getitem outputs (Suc i + j) = Returned (item (Suc i + j))"
    by force
  from Cons.IH [OF this, of "put_object w r (item i) s"] here show ?case
    by (simp add: map_upt_Suc put_object_def log_event_def del: upt_Suc)
qed

text \<open>The loop writes to the references of its list only, and leaves the scheduler alone.\<close>

lemma store_from_elsewhere:
  "r \<notin> set rs \<Longrightarrow> objstore (snd (store_from rs outputs i w s)) r = objstore s r"
proof (induction rs arbitrary: i s)
  case Nil
  then show ?case by simp
next
  case (Cons a rs)
  then show ?case
    by (cases "py_getitem outputs i") (simp_all add: put_object_def log_event_def)
qed

lemma store_from_scheduler:
  "arities (snd (store_from rs outputs i w s)) = arities s \<and>
   next_objref (snd (store_from rs outputs i w s)) = next_objref s"
proof (induction rs arbitrary: i s)
  case Nil
  then show ?case by simp
next
  case (Cons a rs)
  show ?case
    by (cases "py_getitem outputs i") (simp_all add: Cons.IH put_object_def log_event_def)
qed

lemma store_from_holds:
  "distinct rs \<Longrightarrow> j < length rs \<Longrightarrow>
   (\<forall>k<length rs. py_getitem outputs (i + k) = Returned (item (i + k))) \<Longrightarrow>
   objstore (snd (store_from rs outputs i w s)) (rs ! j) = Some (item (i + j))"
proof (induction rs arbitrary: i j s)
  case Nil
  then show ?case by simp
next
  case (Cons r rs)
  from Cons.prems(3) have here: "py_getitem outputs i = Returned (item i)"
    by force
  from Cons.prems(3)
  have rest: "\<forall>k<length rs. py_getitem outputs (Suc i + k) = Returned (item (Suc i + k))"
    by force
  show ?case
  proof (cases j)
    case 0
    from Cons.prems(1) have "r \<notin> set rs" by simp
    from store_from_elsewhere [OF this, of outputs "Suc i" w "put_object w r (item i) s"]
    show ?thesis
      using 0 here by (simp add: put_object_def log_event_def)
  next
    case (Suc j')
    with Cons.prems have "distinct rs" "j' < length rs" by auto
    from Cons.IH [OF this rest, of "put_object w r (item i) s"] show ?thesis
      using Suc here by simp
  qed
qed

lemma writes_to_append: "writes_to r (xs @ ys) = writes_to r xs @ writes_to r ys"
  by (induction r xs rule: writes_to.induct) auto

lemma writes_to_other:
  "r \<notin> set rs \<Longrightarrow> writes_to r (map (\<lambda>j. PutObject (rs ! j) (item j)) [0..<length rs]) = []"
proof (induction rs arbitrary: item)
  case Nil
  then show ?case by simp
next
  case (Cons a rs)
  from Cons.prems Cons.IH [of "\<lambda>j. item (Suc j)"] show ?case
    by (simp add: map_upt_Suc del: upt_Suc)
qed

lemma writes_to_puts:
  "distinct rs \<Longrightarrow> i < length rs \<Longrightarrow>
   writes_to (rs ! i) (map (\<lambda>j. PutObject (rs ! j) (item j)) [0..<length rs]) = [item i]"
proof (induction rs arbitrary: i item)
  case Nil
  then show ?case by simp
next
  case (Cons r rs)
  show ?case
  proof (cases i)
    case 0
    with Cons.prems writes_to_other [of r rs "\<lambda>j. item (Suc j)"] show ?thesis
      by (simp add: map_upt_Suc del: upt_Suc)
  next
    case (Suc i')
    with Cons.prems have "rs ! i' \<noteq> r"
      by auto
    moreover from Suc Cons.prems
    have "writes_to (rs ! i') (map (\<lambda>j. PutObject (rs ! j) (item (Suc j))) [0..<length rs])
            = [item (Suc i')]"
      by (intro Cons.IH) auto
    ultimately show ?thesis
      using Suc by (simp add: map_upt_Suc del: upt_Suc)
  qed
qed

section \<open>The main loop on the examples\<close>

text \<open>
  A connected worker starts the worker service and waits for a task. Given the task
  \<^verbatim>\<open>add(2, 3)\<close> with output reference 0 it stores 5 under that reference, acknowledges
  the task and waits for the next one; given \<^verbatim>\<open>split("ab")\<close> with output references 0 and
  1 it stores the two parts.
\<close>

lemma worker2_registry:
  "functions worker2 ''demo.add'' = Some add" "functions worker2 ''demo.split'' = Some split"
  "connected worker2"
  by (simp_all add: worker2_def worker1_def connect_def register_function_def Let_def
      add_def split_def distributed_def add_func_def split_func_def)

lemma main_loop_starts_service:
  "connected w \<Longrightarrow>
   main_loop w [] s = (Blocked, s\<lparr>trace := trace s @ [StartWorkerService, WaitForNextTask]\<rparr>)"
  by (simp add: main_loop_def log_event_def)

lemma main_loop_add:
  "main_loop worker2 [(''demo.add'', [IntV 2, IntV 3], [0])] lib1 =
     (Blocked,
      lib1\<lparr>objstore := [0 \<mapsto> IntV 5],
           trace := trace lib1 @ [StartWorkerService, WaitForNextTask, PutObject 0 (IntV 5),
                                  NotifyTaskCompleted, WaitForNextTask]\<rparr>)"
proof -
  have f: "arg_types add = [Some IntT, Some IntT]" "return_types add = [IntT]"
    "body (func add) [IntV 2, IntV 3] = (\<lambda>s. (Returned (IntV 5), s))"
    by (simp_all add: add_def distributed_def add_func_def)
  have args: "get_arguments_for_execution add [IntV 2, IntV 3] worker2 s = Returned [IntV 2, IntV 3]"
    for s
    by (simp add: get_arguments_for_execution_def get_argument_def expected_type_def
        py_index_def isinstance_def issubclass_def f)
  have st: "objstore lib1 = Map.empty"
    by (simp add: lib1_def register_function_def lib_register_function_def log_event_def
        Let_def lib0_def)
  show ?thesis
    by (simp add: main_loop_def worker2_registry sbind_def args func_executor_def f
        store_outputs_in_objstore_def put_object_def log_event_def st)
qed

lemma main_loop_split:
  "objstore (snd (main_loop worker2 [(''demo.split'', [StrV ''ab''], [0, 1])] lib1)) =
     [0 \<mapsto> StrV ''a'', 1 \<mapsto> StrV ''b'']"
proof -
  have f: "arg_types split = [Some StrT]" "return_types split = [StrT, StrT]"
    "body (func split) [StrV ''ab''] = (\<lambda>s. (Returned (TupleV [StrV ''a'', StrV ''b'']), s))"
    by (simp_all add: split_def distributed_def split_func_def)
  have args: "get_arguments_for_execution split [StrV ''ab''] worker2 s = Returned [StrV ''ab'']"
    for s
    by (simp add: get_arguments_for_execution_def get_argument_def expected_type_def
        py_index_def isinstance_def issubclass_def f)
  have st: "objstore lib1 = Map.empty"
    by (simp add: lib1_def register_function_def lib_register_function_def log_event_def
        Let_def lib0_def)
  show ?thesis
    by (simp add: main_loop_def worker2_registry sbind_def args func_executor_def f
        store_outputs_in_objstore_def put_object_def log_event_def st py_index_def)
qed

section \<open>Where the deferred check and the output count work\<close>

text \<open>
  At call time an object reference passes the check of its position whatever
  the descriptor of the position is, and \<^verbatim>\<open>check_arguments\<close> never reports a type error for
  a position that holds an object reference. At resolution time, when the arguments before
  an object reference resolve, the reference is in the store and its value is not an
  instance of the type expected at its position, \<^verbatim>\<open>get_arguments_for_execution\<close> raises
  the type error that names the position, the function, the type of the value and the
  expected type. Both hold where the lookup of the descriptor of the position returns.
\<close>

lemma objref_deferred_where_descriptor_resolves:
  "(expected_type (arg_types f) i = Returned d \<longrightarrow>
      check_argument f i (ObjRefV r) = Returned ()) \<and>
   (i < length args \<and> args ! i = ObjRefV r \<longrightarrow>
      check_arguments f args \<noteq> Raised (ArgumentType i n a e)) \<and>
   (get_arguments_for_execution f xs w s = Returned vs \<and> objstore s r = Some v \<and>
    expected_type (arg_types f) (length xs) = Returned (Some t) \<and>
    \<not> issubclass (py_type v) t \<longrightarrow>
      get_arguments_for_execution f (xs @ ObjRefV r # ys) w s =
        Raised (ArgumentType (length xs) (func_name f) (py_type v) (Some t)))"
proof (intro conjI impI)
  assume "expected_type (arg_types f) i = Returned d"
  then show "check_argument f i (ObjRefV r) = Returned ()"
    by (simp add: check_argument_def)
next
  assume "i < length args \<and> args ! i = ObjRefV r"
  then show "check_arguments f args \<noteq> Raised (ArgumentType i n a e)"
    by (auto dest: check_arguments_ArgumentType)
next
  assume "get_arguments_for_execution f xs w s = Returned vs \<and> objstore s r = Some v \<and>
    expected_type (arg_types f) (length xs) = Returned (Some t) \<and>
    \<not> issubclass (py_type v) t"
  then show "get_arguments_for_execution f (xs @ ObjRefV r # ys) w s =
        Raised (ArgumentType (length xs) (func_name f) (py_type v) (Some t))"
    by (simp add: get_arguments_mismatch)
qed

lemma objref_deferred_example:
  "expected_type (arg_types add) 1 = Returned (Some IntT) \<and>
   check_argument add 1 (ObjRefV 7) = Returned () \<and>
   [IntV 2, ObjRefV 7] ! 1 = ObjRefV 7 \<and>
   check_arguments add [IntV 2, ObjRefV 7] = Returned () \<and>
   get_arguments_for_execution add [IntV 2] Worker lib_str = Returned [IntV 2] \<and>
   objstore lib_str 7 = Some (StrV ''seven'') \<and>
   \<not> issubclass (py_type (StrV ''seven'')) IntT \<and>
   get_arguments_for_execution add [IntV 2, ObjRefV 7] Worker lib_str =
     Raised (ArgumentType 1 ''demo.add'' StrT (Some IntT))"
proof -
  have ats: "arg_types add = [Some IntT, Some IntT]" and n: "func_name add = ''demo.add''"
    by (simp_all add: add_def distributed_def add_func_def)
  have h1: "expected_type (arg_types add) 1 = Returned (Some IntT)"
    by (simp add: ats expected_type_def py_index_def)
  have h2: "1 < length [IntV 2, ObjRefV 7] \<and> [IntV 2, ObjRefV 7] ! 1 = ObjRefV 7"
    by simp
  have ok: "check_arguments add [IntV 2, ObjRefV 7] = Returned ()"
    by (simp add: check_arguments_def check_count_def check_argument_def expected_type_def
        py_index_def isinstance_def issubclass_def ats)
  have h3: "get_arguments_for_execution add [IntV 2] Worker lib_str = Returned [IntV 2] \<and>
      objstore lib_str 7 = Some (StrV ''seven'') \<and>
      expected_type (arg_types add) (length [IntV 2]) = Returned (Some IntT) \<and>
      \<not> issubclass (py_type (StrV ''seven'')) IntT"
    by (simp add: get_arguments_for_execution_def get_argument_def expected_type_def
        py_index_def isinstance_def issubclass_def ats lib_str_def lib0_def)
  from objref_deferred_where_descriptor_resolves
    [of add 1 "Some IntT" 7 "[IntV 2, ObjRefV 7]" "''demo.add''" ObjRefT "Some IntT"
        "[IntV 2]" Worker lib_str "[IntV 2]" "StrV ''seven''" IntT "[]"]
    h1 h2 h3 ok
  show ?thesis
    by (simp add: n)
qed

text \<open>
  For a declared return arity other than 1, when the body returns a result that
  has a length and the length differs from the arity, the executor raises the error that
  carries the name of the function, the declared arity, the declared return types and the
  length of the result. For a declared return arity of 1 the executor makes no check: its
  outcome is the outcome of the body.
\<close>

lemma func_executor_sized_result:
  "(length (return_types f) \<noteq> 1 \<and> body (func f) arguments s = (Returned result, s') \<and>
    py_len result = Returned n \<and> n \<noteq> length (return_types f) \<longrightarrow>
      func_executor f arguments s =
        (Raised (ReturnCount (name (func f)) (length (return_types f)) (return_types f) n), s')) \<and>
   (length (return_types f) = 1 \<longrightarrow> func_executor f arguments s = body (func f) arguments s)"
proof (intro conjI impI)
  assume "length (return_types f) \<noteq> 1 \<and> body (func f) arguments s = (Returned result, s') \<and>
    py_len result = Returned n \<and> n \<noteq> length (return_types f)"
  then show "func_executor f arguments s =
        (Raised (ReturnCount (name (func f)) (length (return_types f)) (return_types f) n), s')"
    by (simp add: func_executor_def sbind_def)
next
  assume "length (return_types f) = 1"
  then show "func_executor f arguments s = body (func f) arguments s"
    by (cases "body (func f) arguments s"; cases "fst (body (func f) arguments s)")
       (simp_all add: func_executor_def sbind_def)
qed

lemma func_executor_example:
  "length (return_types split3) = 3 \<and>
   body (func split3) [StrV ''ab''] lib0 = (Returned (TupleV [StrV ''a'', StrV ''b'']), lib0) \<and>
   py_len (TupleV [StrV ''a'', StrV ''b'']) = Returned 2 \<and>
   func_executor split3 [StrV ''ab''] lib0 =
     (Raised (ReturnCount ''split'' 3 [StrT, StrT, StrT] 2), lib0) \<and>
   length (return_types add) = 1 \<and>
   func_executor add [IntV 2, IntV 3] lib0 = (Returned (IntV 5), lib0)"
proof -
  have rts: "return_types split3 = [StrT, StrT, StrT]" "return_types add = [IntT]"
    and nm: "name (func split3) = ''split''"
    by (simp_all add: split3_def add_def distributed_def split_func_def)
  have b3: "body (func split3) [StrV ''ab''] lib0
              = (Returned (TupleV [StrV ''a'', StrV ''b'']), lib0)"
    by (simp add: split3_def distributed_def split_func_def)
  have b1: "body (func add) [IntV 2, IntV 3] lib0 = (Returned (IntV 5), lib0)"
    by (simp add: add_def distributed_def add_func_def)
  have h3: "length (return_types split3) \<noteq> 1 \<and>
      body (func split3) [StrV ''ab''] lib0 = (Returned (TupleV [StrV ''a'', StrV ''b'']), lib0) \<and>
      py_len (TupleV [StrV ''a'', StrV ''b'']) = Returned 2 \<and> 2 \<noteq> length (return_types split3)"
    by (simp add: rts b3)
  have h1: "length (return_types add) = 1"
    by (simp add: rts)
  from func_executor_sized_result
         [of split3 "[StrV ''ab'']" lib0 "TupleV [StrV ''a'', StrV ''b'']" lib0 2]
       func_executor_sized_result [of add "[IntV 2, IntV 3]" lib0]
       h3 h1 b1
  show ?thesis
    by (simp add: rts nm)
qed

section \<open>The claims\<close>

text \<open>
  Claim C1. A function declared with \<^verbatim>\<open>[int, None]\<close> and called with \<^verbatim>\<open>(1, 2, 3)\<close> should
  pass the call-time check and the resolution, positions 1 and 2 being checked against
  \<^verbatim>\<open>int\<close>. In the code both \<^verbatim>\<open>check_arguments\<close> and \<^verbatim>\<open>get_arguments_for_execution\<close>
  raise TypeError at position 1: line 110 (and 139) computes \<^verbatim>\<open>len(function.arg_types > 1)\<close>,
  the length of a boolean, where \<^verbatim>\<open>len(function.arg_types) > 1\<close> was meant.
  (\<open>check_arguments_variadic\<close> and \<open>get_arguments_variadic\<close> above: the same for every
  function with a trailing sentinel and every call that has a variadic argument.)
\<close>

theorem variadic_call_raises_TypeError:
  "check_arguments (distributed [Some IntT, None] rts g) [IntV 1, IntV 2, IntV 3]
     = Raised TypeError \<and>
   get_arguments_for_execution (distributed [Some IntT, None] rts g)
     [IntV 1, IntV 2, IntV 3] w s = Raised TypeError"
  by (simp add: check_arguments_def check_count_def check_argument_def
      get_arguments_for_execution_def get_argument_def expected_type_def variadic_branch_def
      py_index_def distributed_def list_gt_int_def isinstance_def issubclass_def)

text \<open>
  Claim C2. Without a trailing sentinel, a call whose argument count differs from the
  number of descriptors should raise the arity error that names both counts, before
  dispatch. For a function declared with no arguments (\<^verbatim>\<open>arg_types = []\<close>) called with one
  argument, line 100 evaluates \<^verbatim>\<open>function.arg_types[-1]\<close> on the empty list: the call
  raises IndexError instead, still before dispatch. (\<open>func_call_exact\<close> above is the
  claim for one descriptor or more.)
\<close>

theorem no_descriptor_call_raises_IndexError:
  "check_arguments (distributed [] rts g) [IntV 1] = Raised IndexError \<and>
   func_call (distributed [] rts g) w [IntV 1] s = (Raised IndexError, s)"
  by (simp add: func_call_def sbind_def check_arguments_def check_count_def py_index_def
      distributed_def)

text \<open>
  Claim C3. An object reference among the call arguments should pass \<^verbatim>\<open>check_arguments\<close>
  whatever the descriptor of its position, and a reference whose stored value is not an
  instance of that descriptor should make \<^verbatim>\<open>get_arguments_for_execution\<close> raise the type
  error naming position, function, actual and expected type. For a function declared with
  \<^verbatim>\<open>[int, None]\<close> and the arguments \<^verbatim>\<open>(1, ObjRef 7)\<close>, where the store holds a string for
  reference 7, the descriptor of position 1 is \<^verbatim>\<open>int\<close>; the code raises TypeError in
  both functions, at line 110 and at line 139, before it looks at the argument: the
  reference is not accepted at call time and no type error naming the position is raised
  at resolution time.
\<close>

theorem objref_at_variadic_position_raises_TypeError:
  "check_arguments add_many [IntV 1, ObjRefV 7] = Raised TypeError \<and>
   objstore lib_str 7 = Some (StrV ''seven'') \<and>
   get_arguments_for_execution add_many [IntV 1, ObjRefV 7] w lib_str = Raised TypeError"
  by (simp add: check_arguments_def check_count_def check_argument_def
      get_arguments_for_execution_def get_argument_def expected_type_def variadic_branch_def
      py_index_def add_many_def distributed_def list_gt_int_def isinstance_def issubclass_def
      lib_str_def lib0_def)

text \<open>
  Claim C4. A call through the proxy that returns, for a function the scheduler knows with
  its declared return arity \<open>N\<close>, returns one bare object reference when \<open>N = 1\<close> and a
  list of exactly \<open>N\<close> object references when \<open>N > 1\<close>.
\<close>

theorem func_call_returns_references:
  assumes "fst (func_call f w args s) = Returned v"
    and "arities s (func_name f) = Some (length (return_types f))"
  shows "(length (return_types f) = 1 \<longrightarrow> (\<exists>r. v = ObjRefV r)) \<and>
         (1 < length (return_types f) \<longrightarrow>
            (\<exists>rs. v = ListV (map ObjRefV rs) \<and> length rs = length (return_types f)))"
proof -
  from assms(1) obtain objrefs where
    rc: "fst (remote_call w (func_name f) args s) = Returned objrefs" and
    v: "v = (if length objrefs = 1 then ObjRefV (objrefs ! 0) else ListV (map ObjRefV objrefs))"
    by (cases "check_arguments f args"; cases "remote_call w (func_name f) args s";
        cases "fst (remote_call w (func_name f) args s)")
       (auto simp: func_call_def sbind_def)
  from remote_call_Returned [OF rc assms(2)]
  have "length objrefs = length (return_types f)"
    by simp
  with v show ?thesis by auto
qed

theorem func_call_returns_references_witness:
  "fst (func_call split worker1 [StrV ''ab''] lib1) = Returned (ListV [ObjRefV 0, ObjRefV 1]) \<and>
   arities lib1 (func_name split) = Some (length (return_types split)) \<and>
   length (return_types split) = 2 \<and>
   (\<exists>rs. ListV [ObjRefV 0, ObjRefV 1] = ListV (map ObjRefV rs) \<and> length rs = 2) \<and>
   fst (func_call add worker1 [IntV 2, IntV 3] lib1) = Returned (ObjRefV 0) \<and>
   arities lib1 (func_name add) = Some (length (return_types add)) \<and>
   length (return_types add) = 1"
proof -
  have names: "func_name split = ''demo.split''" "func_name add = ''demo.add''"
    and rts: "return_types split = [StrT, StrT]" "return_types add = [IntT]"
    and ats: "arg_types split = [Some StrT]" "arg_types add = [Some IntT, Some IntT]"
    by (simp_all add: split_def add_def distributed_def split_func_def add_func_def)
  have lib1: "arities lib1 ''demo.split'' = Some 2" "arities lib1 ''demo.add'' = Some 1"
    "next_objref lib1 = 0"
    by (simp_all add: lib1_def register_function_def lib_register_function_def log_event_def
        Let_def names rts lib0_def)
  have h: "handle worker1 \<noteq> None"
    by (simp add: worker1_def connect_def)
  have c2: "fst (func_call split worker1 [StrV ''ab''] lib1)
              = Returned (ListV [ObjRefV 0, ObjRefV 1])"
    using h
    by (auto simp: func_call_def sbind_def check_arguments_def check_count_def
        check_argument_def expected_type_def py_index_def isinstance_def issubclass_def
        remote_call_def lib_remote_call_def Let_def names ats lib1 upt_rec)
  have c1: "fst (func_call add worker1 [IntV 2, IntV 3] lib1) = Returned (ObjRefV 0)"
    using h
    by (auto simp: func_call_def sbind_def check_arguments_def check_count_def
        check_argument_def expected_type_def py_index_def isinstance_def issubclass_def
        remote_call_def lib_remote_call_def Let_def names ats lib1)
  have a2: "arities lib1 (func_name split) = Some (length (return_types split))"
    and a1: "arities lib1 (func_name add) = Some (length (return_types add))"
    by (simp_all add: names rts lib1)
  from func_call_returns_references [OF c2 a2] func_call_returns_references [OF c1 a1]
  show ?thesis
    using c1 c2 a1 a2 by (simp add: rts numeral_2_eq_2)
qed

text \<open>
  Claim C5. For a declared return arity other than 1 the executor should raise the error
  that carries the function name, the declared arity with its types and the number of
  values produced whenever that number differs from the arity. A function declared with
  two return values whose body returns the single integer 5 produces one value; line 81
  evaluates \<^verbatim>\<open>len(result)\<close> on the integer and the executor raises a bare TypeError, not
  the error of line 82. (\<open>func_executor_sized_result\<close> above: for a result that has a
  length the error of line 82 is raised, and for arity 1 nothing is checked.)
\<close>

theorem func_executor_unsized_result_raises_TypeError:
  "length (return_types five_pair) = 2 \<and>
   body (func five_pair) arguments s = (Returned (IntV 5), s) \<and>
   func_executor five_pair arguments s = (Raised TypeError, s)"
  by (simp add: func_executor_def sbind_def five_pair_def five_func_def distributed_def)

text \<open>
  Claim C6, with the conditions it needs. With one output reference,
  \<^verbatim>\<open>store_outputs_in_objstore\<close> makes one \<^verbatim>\<open>put_object\<close> call: afterwards the object store
  holds the whole result under that reference and nothing else has changed but the trace.
  With \<open>N > 1\<close> output references and a result whose elements 0 to \<open>N - 1\<close> exist, it
  returns after exactly \<open>N\<close> calls, the one of rank \<open>i\<close> writing element \<open>i\<close> to reference
  \<open>i\<close>, and no reference outside the list changes in the store; when the references are
  pairwise distinct, each of them is written exactly once and the store then holds element
  \<open>i\<close> under reference \<open>i\<close>.
\<close>

theorem store_outputs_in_objstore_writes:
  "(length objrefs = 1 \<longrightarrow>
      store_outputs_in_objstore objrefs outputs w s =
        (Returned (),
         s\<lparr>objstore := (objstore s)(objrefs ! 0 \<mapsto> outputs),
           trace := trace s @ [PutObject (objrefs ! 0) outputs]\<rparr>)) \<and>
   (1 < length objrefs \<and> (\<forall>i<length objrefs. py_getitem outputs i = Returned (item i)) \<longrightarrow>
      fst (store_outputs_in_objstore objrefs outputs w s) = Returned () \<and>
      trace (snd (store_outputs_in_objstore objrefs outputs w s)) =
        trace s @ map (\<lambda>i. PutObject (objrefs ! i) (item i)) [0..<length objrefs] \<and>
      (\<forall>r. r \<notin> set objrefs \<longrightarrow>
         objstore (snd (store_outputs_in_objstore objrefs outputs w s)) r = objstore s r) \<and>
      (distinct objrefs \<longrightarrow>
         (\<forall>i<length objrefs.
            objstore (snd (store_outputs_in_objstore objrefs outputs w s)) (objrefs ! i) =
              Some (item i) \<and>
            writes_to (objrefs ! i) (trace (snd (store_outputs_in_objstore objrefs outputs w s))) =
              writes_to (objrefs ! i) (trace s) @ [item i])))"
proof (intro conjI impI)
  assume "length objrefs = 1"
  then show "store_outputs_in_objstore objrefs outputs w s =
        (Returned (),
         s\<lparr>objstore := (objstore s)(objrefs ! 0 \<mapsto> outputs),
           trace := trace s @ [PutObject (objrefs ! 0) outputs]\<rparr>)"
    by (simp add: store_outputs_in_objstore_def put_object_def log_event_def)
next
  assume a: "1 < length objrefs \<and> (\<forall>i<length objrefs. py_getitem outputs i = Returned (item i))"
  then have items: "\<forall>j<length objrefs. py_getitem outputs (0 + j) = Returned (item (0 + j))"
    by simp
  from a have sf: "store_outputs_in_objstore objrefs outputs w s = store_from objrefs outputs 0 w s"
    by (simp add: store_outputs_in_objstore_def)
  from store_from_trace [OF items, of w s]
  show "fst (store_outputs_in_objstore objrefs outputs w s) = Returned ()"
    and t: "trace (snd (store_outputs_in_objstore objrefs outputs w s)) =
        trace s @ map (\<lambda>i. PutObject (objrefs ! i) (item i)) [0..<length objrefs]"
    by (simp_all add: sf)
  show "\<forall>r. r \<notin> set objrefs \<longrightarrow>
         objstore (snd (store_outputs_in_objstore objrefs outputs w s)) r = objstore s r"
    by (simp add: sf store_from_elsewhere)
  assume d: "distinct objrefs"
  show "\<forall>i<length objrefs.
            objstore (snd (store_outputs_in_objstore objrefs outputs w s)) (objrefs ! i) =
              Some (item i) \<and>
            writes_to (objrefs ! i) (trace (snd (store_outputs_in_objstore objrefs outputs w s))) =
              writes_to (objrefs ! i) (trace s) @ [item i]"
  proof (intro allI impI conjI)
    fix i assume i: "i < length objrefs"
    from store_from_holds [OF d i items, of w s]
    show "objstore (snd (store_outputs_in_objstore objrefs outputs w s)) (objrefs ! i) =
              Some (item i)"
      by (simp add: sf)
    from writes_to_puts [OF d i, of item]
    show "writes_to (objrefs ! i) (trace (snd (store_outputs_in_objstore objrefs outputs w s))) =
              writes_to (objrefs ! i) (trace s) @ [item i]"
      by (simp add: t writes_to_append)
  qed
qed

theorem store_outputs_in_objstore_writes_witness:
  "length [4::objref] = 1 \<and>
   store_outputs_in_objstore [4] (TupleV [StrV ''a'', StrV ''b'']) Worker lib0 =
     (Returned (),
      lib0\<lparr>objstore := [4 \<mapsto> TupleV [StrV ''a'', StrV ''b'']],
           trace := [PutObject 4 (TupleV [StrV ''a'', StrV ''b''])]\<rparr>) \<and>
   1 < length [4::objref, 5] \<and>
   py_getitem (TupleV [StrV ''a'', StrV ''b'']) 0 = Returned (StrV ''a'') \<and>
   py_getitem (TupleV [StrV ''a'', StrV ''b'']) 1 = Returned (StrV ''b'') \<and>
   distinct [4::objref, 5] \<and> 6 \<notin> set [4::objref, 5] \<and>
   fst (store_outputs_in_objstore [4, 5] (TupleV [StrV ''a'', StrV ''b'']) Worker lib0) =
     Returned () \<and>
   trace (snd (store_outputs_in_objstore [4, 5] (TupleV [StrV ''a'', StrV ''b'']) Worker lib0)) =
     [PutObject 4 (StrV ''a''), PutObject 5 (StrV ''b'')] \<and>
   objstore (snd (store_outputs_in_objstore [4, 5] (TupleV [StrV ''a'', StrV ''b'']) Worker lib0)) 4
     = Some (StrV ''a'') \<and>
   objstore (snd (store_outputs_in_objstore [4, 5] (TupleV [StrV ''a'', StrV ''b'']) Worker lib0)) 5
     = Some (StrV ''b'') \<and>
   objstore (snd (store_outputs_in_objstore [4, 5] (TupleV [StrV ''a'', StrV ''b'']) Worker lib0)) 6
     = None \<and>
   writes_to 4
     (trace (snd (store_outputs_in_objstore [4, 5] (TupleV [StrV ''a'', StrV ''b'']) Worker lib0)))
     = [StrV ''a''] \<and>
   writes_to 5
     (trace (snd (store_outputs_in_objstore [4, 5] (TupleV [StrV ''a'', StrV ''b'']) Worker lib0)))
     = [StrV ''b'']"
proof -
  have g: "py_getitem (TupleV [StrV ''a'', StrV ''b'']) 0 = Returned (StrV ''a'')"
    "py_getitem (TupleV [StrV ''a'', StrV ''b'']) 1 = Returned (StrV ''b'')"
    by (simp_all add: py_index_def)
  have h2: "1 < length [4::objref, 5] \<and>
      (\<forall>i<length [4::objref, 5].
         py_getitem (TupleV [StrV ''a'', StrV ''b'']) i = Returned ([StrV ''a'', StrV ''b''] ! i))"
    by (simp add: py_index_def)
  have h1: "length [4::objref] = 1" and d: "distinct [4::objref, 5]"
    and out: "6 \<notin> set [4::objref, 5]"
    by simp_all
  have l0: "trace lib0 = []" "objstore lib0 = Map.empty"
    by (simp_all add: lib0_def)
  from store_outputs_in_objstore_writes
         [where objrefs = "[4]" and outputs = "TupleV [StrV ''a'', StrV ''b'']"
            and w = Worker and s = lib0]
  have one: "store_outputs_in_objstore [4] (TupleV [StrV ''a'', StrV ''b'']) Worker lib0 =
     (Returned (),
      lib0\<lparr>objstore := [4 \<mapsto> TupleV [StrV ''a'', StrV ''b'']],
           trace := [PutObject 4 (TupleV [StrV ''a'', StrV ''b''])]\<rparr>)"
    using h1 by (simp add: l0)
  from store_outputs_in_objstore_writes
         [where objrefs = "[4, 5]" and outputs = "TupleV [StrV ''a'', StrV ''b'']"
            and item = "\<lambda>i. [StrV ''a'', StrV ''b''] ! i" and w = Worker and s = lib0]
       h2 d out
  have two: "fst (store_outputs_in_objstore [4, 5] (TupleV [StrV ''a'', StrV ''b'']) Worker lib0)
      = Returned ()"
    "trace (snd (store_outputs_in_objstore [4, 5] (TupleV [StrV ''a'', StrV ''b'']) Worker lib0))
      = [PutObject 4 (StrV ''a''), PutObject 5 (StrV ''b'')]"
    "objstore (snd (store_outputs_in_objstore [4, 5] (TupleV [StrV ''a'', StrV ''b'']) Worker lib0)) 4
     = Some (StrV ''a'')"
    "objstore (snd (store_outputs_in_objstore [4, 5] (TupleV [StrV ''a'', StrV ''b'']) Worker lib0)) 5
     = Some (StrV ''b'')"
    "objstore (snd (store_outputs_in_objstore [4, 5] (TupleV [StrV ''a'', StrV ''b'']) Worker lib0)) 6
     = None"
    by (simp_all add: l0 upt_rec All_less_Suc numeral_2_eq_2)
  show ?thesis
    using g one two by simp
qed

text \<open>
  Without these conditions the statement fails. Given the same reference twice, the
  function writes it twice, and the store ends with element 1 under it; given two
  references and a result of one element, it writes the first reference, raises IndexError
  and never writes the second.
\<close>

theorem store_outputs_in_objstore_counterexample:
  "writes_to 4
     (trace (snd (store_outputs_in_objstore [4, 4] (TupleV [StrV ''a'', StrV ''b'']) Worker lib0)))
     = [StrV ''a'', StrV ''b''] \<and>
   objstore (snd (store_outputs_in_objstore [4, 4] (TupleV [StrV ''a'', StrV ''b'']) Worker lib0)) 4
     = Some (StrV ''b'') \<and>
   fst (store_outputs_in_objstore [4, 5] (TupleV [StrV ''a'']) Worker lib0) = Raised IndexError \<and>
   objstore (snd (store_outputs_in_objstore [4, 5] (TupleV [StrV ''a'']) Worker lib0)) 4
     = Some (StrV ''a'') \<and>
   objstore (snd (store_outputs_in_objstore [4, 5] (TupleV [StrV ''a'']) Worker lib0)) 5 = None"
  by (simp add: store_outputs_in_objstore_def put_object_def log_event_def py_index_def lib0_def)

text \<open>
  Claim C7. When \<^verbatim>\<open>get_arguments_for_execution\<close> returns, the list it returns has the
  length of the argument list and, position by position, holds the value of the object
  store for an argument that is an object reference and the argument itself otherwise.
\<close>

theorem get_arguments_for_execution_resolves:
  assumes "get_arguments_for_execution f args w s = Returned vs"
  shows "length vs = length args \<and> (\<forall>i<length args. resolved s (args ! i) (vs ! i))"
proof -
  from assms have "get_each f w s 0 args [] = Returned vs"
    by (simp add: get_arguments_for_execution_def)
  from get_each_Returned [OF this] show ?thesis
    by (auto dest: get_argument_resolved)
qed

theorem get_arguments_for_execution_resolves_witness:
  "get_arguments_for_execution add [IntV 2, ObjRefV 7] Worker lib_int
     = Returned [IntV 2, IntV 3] \<and>
   length [IntV 2, IntV 3] = length [IntV 2, ObjRefV 7] \<and>
   resolved lib_int (IntV 2) (IntV 2) \<and> resolved lib_int (ObjRefV 7) (IntV 3)"
proof -
  have h: "get_arguments_for_execution add [IntV 2, ObjRefV 7] Worker lib_int
             = Returned [IntV 2, IntV 3]"
    by (simp add: get_arguments_for_execution_def get_argument_def get_object_def
        expected_type_def py_index_def isinstance_def issubclass_def add_def distributed_def
        lib_int_def lib0_def)
  from get_arguments_for_execution_resolves [OF h] show ?thesis
    using h by (simp add: lib_int_def lib0_def)
qed

text \<open>
  Claim C8. \<^verbatim>\<open>main_loop\<close> on a worker whose \<^verbatim>\<open>connected\<close> flag is false raises the
  connection error at once: the library state is untouched, so the worker service was not
  started and no task was waited for, resolved, executed, stored or acknowledged.
\<close>

theorem main_loop_not_connected:
  "\<not> connected w \<Longrightarrow> main_loop w calls s = (Raised NotConnected, s)"
  by (simp add: main_loop_def)

theorem main_loop_not_connected_witness:
  "\<not> connected Worker \<and>
   main_loop Worker [(''demo.add'', [IntV 2, IntV 3], [0])] lib0 = (Raised NotConnected, lib0)"
proof -
  have h: "\<not> connected Worker"
    by (simp add: Worker_def)
  from main_loop_not_connected [OF h] show ?thesis
    using h by simp
qed

text \<open>
  Claim C9. The assertion of line 142 can be reached. For a function with at least one
  descriptor, the last of which is not the sentinel, a task with more arguments than
  descriptors never resolves; and when its arguments up to the number of descriptors
  resolve and pass their checks, the next one reaches \<^verbatim>\<open>assert False\<close>, since nothing
  checked the count before the loop.
\<close>

theorem unreachable_assertion_is_reached:
  assumes "arg_types f \<noteq> []" and "last (arg_types f) \<noteq> None"
    and "length (arg_types f) < length args"
  shows "(\<forall>vs. get_arguments_for_execution f args w s \<noteq> Returned vs) \<and>
         (\<forall>vs. get_arguments_for_execution f (take (length (arg_types f)) args) w s
                 = Returned vs \<longrightarrow>
               get_arguments_for_execution f args w s = Raised AssertionError)"
proof (intro conjI allI impI)
  fix vs
  show "get_arguments_for_execution f args w s \<noteq> Returned vs"
  proof
    assume "get_arguments_for_execution f args w s = Returned vs"
    then have "get_each f w s 0 args [] = Returned vs"
      by (simp add: get_arguments_for_execution_def)
    from get_each_Returned [OF this] assms(3)
    have "\<exists>v. get_argument f w s (length (arg_types f)) (args ! length (arg_types f))
            = Returned v"
      by auto
    with assms show False
      by (simp add: get_argument_beyond)
  qed
next
  fix vs
  assume pre: "get_arguments_for_execution f (take (length (arg_types f)) args) w s
                 = Returned vs"
  from assms(3) obtain a rest where d: "drop (length (arg_types f)) args = a # rest"
    by (cases "drop (length (arg_types f)) args") auto
  have "args = take (length (arg_types f)) args @ a # rest"
    using d by (metis append_take_drop_id)
  then have "get_arguments_for_execution f args w s =
        bind (get_each f w s 0 (take (length (arg_types f)) args) [])
          (\<lambda>acc'. get_each f w s (length (take (length (arg_types f)) args)) (a # rest) acc')"
    unfolding get_arguments_for_execution_def
    by (metis get_each_append add_0)
  with pre assms show "get_arguments_for_execution f args w s = Raised AssertionError"
    by (simp add: get_arguments_for_execution_def get_argument_beyond min_def)
qed

theorem unreachable_assertion_is_reached_witness:
  "arg_types add \<noteq> [] \<and> last (arg_types add) \<noteq> None \<and>
   length (arg_types add) < length [IntV 1, IntV 2, IntV 3] \<and>
   get_arguments_for_execution add (take (length (arg_types add)) [IntV 1, IntV 2, IntV 3])
     Worker lib0 = Returned [IntV 1, IntV 2] \<and>
   get_arguments_for_execution add [IntV 1, IntV 2, IntV 3] Worker lib0 = Raised AssertionError"
proof -
  have ats: "arg_types add = [Some IntT, Some IntT]"
    by (simp add: add_def distributed_def)
  have h: "arg_types add \<noteq> []" "last (arg_types add) \<noteq> None"
    "length (arg_types add) < length [IntV 1, IntV 2, IntV 3]"
    by (simp_all add: ats)
  have pre: "get_arguments_for_execution add
      (take (length (arg_types add)) [IntV 1, IntV 2, IntV 3]) Worker lib0
        = Returned [IntV 1, IntV 2]"
    by (simp add: ats get_arguments_for_execution_def get_argument_def expected_type_def
        py_index_def isinstance_def issubclass_def)
  from unreachable_assertion_is_reached [OF h, of Worker lib0] pre h show ?thesis
    by simp
qed

text \<open>
  Claim C10. \<^verbatim>\<open>register_function\<close> with a function whose \<^verbatim>\<open>func_name\<close> is already in the
  registry replaces that entry: afterwards the name maps to the new function, every other
  name maps to what it did before, and the registry has the same names as before.
\<close>

theorem register_function_overwrites:
  assumes "functions w (func_name f) = Some g"
  shows "functions (fst (register_function w f s)) (func_name f) = Some f \<and>
         (\<forall>n. n \<noteq> func_name f \<longrightarrow>
              functions (fst (register_function w f s)) n = functions w n) \<and>
         dom (functions (fst (register_function w f s))) = dom (functions w)"
  using assms by (auto simp: register_function_def Let_def)

theorem register_function_overwrites_witness:
  "functions (Worker\<lparr>functions := [''demo.add'' \<mapsto> add, ''demo.split'' \<mapsto> split]\<rparr>)
     (func_name add_many) = Some add \<and>
   functions (fst (register_function
     (Worker\<lparr>functions := [''demo.add'' \<mapsto> add, ''demo.split'' \<mapsto> split]\<rparr>) add_many lib0))
     ''demo.add'' = Some add_many \<and>
   functions (fst (register_function
     (Worker\<lparr>functions := [''demo.add'' \<mapsto> add, ''demo.split'' \<mapsto> split]\<rparr>) add_many lib0))
     ''demo.split'' = Some split \<and>
   dom (functions (fst (register_function
     (Worker\<lparr>functions := [''demo.add'' \<mapsto> add, ''demo.split'' \<mapsto> split]\<rparr>) add_many lib0)))
     = {''demo.add'', ''demo.split''}"
proof -
  have n: "func_name add_many = ''demo.add''"
    by (simp add: add_many_def distributed_def add_func_def)
  have h: "functions (Worker\<lparr>functions := [''demo.add'' \<mapsto> add, ''demo.split'' \<mapsto> split]\<rparr>)
             (func_name add_many) = Some add"
    by (simp add: n)
  from register_function_overwrites [OF h, of lib0] show ?thesis
    using h by (auto simp: n)
qed

end
